theory Spec2Isabelle
  imports Complex_Main "HOL-Library.Multiset"
begin

section \<open>Data model (src/types.ts)\<close>

text \<open>
  A JavaScript string is modelled as a \<^typ>\<open>string\<close>: each \<^typ>\<open>char\<close> is one code unit
  in the range U+0000 .. U+00FF (ASCII and Latin-1).  On that range \<open>toLowerCase\<close>
  works code unit by code unit and the white space recognised by \<open>trim\<close> and by
  the regular expression class \<open>\s\<close> is TAB, LF, VT, FF, CR, SPACE and NBSP.
\<close>

record Card =
  card_id :: string
  vocab :: string
  meaning :: string

record Section =
  section_id :: string
  title :: string
  description :: string
  cards :: "Card list"
  createdAt :: nat

section \<open>Answer normalisation (ResponseMode.tsx, TestMode.tsx: normalizeString)\<close>

definition isSpace :: "char \<Rightarrow> bool" where
  "isSpace c = (let n = (of_char c :: nat) in (9 \<le> n \<and> n \<le> 13) \<or> n = 32 \<or> n = 160)"

definition lowerChar :: "char \<Rightarrow> char" where
  "lowerChar c =
     (let n = (of_char c :: nat) in
      if (65 \<le> n \<and> n \<le> 90) \<or> (192 \<le> n \<and> n \<le> 214) \<or> (216 \<le> n \<and> n \<le> 222)
      then char_of (n + 32) else c)"

text \<open>\<open>str.toLowerCase()\<close>\<close>

definition toLowerCase :: "string \<Rightarrow> string" where
  "toLowerCase str = map lowerChar str"

text \<open>\<open>str.trim()\<close>: white space is removed from both ends.\<close>

definition trim :: "string \<Rightarrow> string" where
  "trim str = rev (dropWhile isSpace (rev (dropWhile isSpace str)))"

text \<open>\<open>str.replace(/\s+/g, ' ')\<close>: every maximal run of white space becomes one space.\<close>

function collapseWs :: "string \<Rightarrow> string" where
  "collapseWs [] = []"
| "collapseWs (c # cs) =
     (if isSpace c then CHR '' '' # collapseWs (dropWhile isSpace cs)
      else c # collapseWs cs)"
  by pat_completeness auto
termination
  by (relation "measure length") (auto simp: length_dropWhile_le less_Suc_eq_le)

text \<open>\<open>str.toLowerCase().trim().replace(/\s+/g, ' ')\<close>\<close>

definition normalizeString :: "string \<Rightarrow> string" where
  "normalizeString str = collapseWs (trim (toLowerCase str))"

text \<open>
  The free-text grading rule shared by response mode and the mixed test:
  \<open>normalizeString(userAnswer) === normalizeString(correctAnswer)\<close>.
\<close>

definition gradeFreeText :: "string \<Rightarrow> string \<Rightarrow> bool" where
  "gradeFreeText userInput correctAnswer =
     (normalizeString userInput = normalizeString correctAnswer)"

section \<open>Randomness\<close>

text \<open>
  The program shuffles with \<open>arr.sort(() => Math.random() - 0.5)\<close>.  Which permutation
  comes out depends on the random draws, so the draws are an explicit argument: a seed
  \<open>rs\<close> selects the permutation.  Each element of the input is inserted at a position
  chosen by the seed, so the result is always a rearrangement of the input and every
  rearrangement is produced by some seed (lemma \<open>shuffle_complete\<close> below).
\<close>

fun shuffle :: "nat list \<Rightarrow> 'a list \<Rightarrow> 'a list" where
  "shuffle rs [] = []"
| "shuffle rs (x # xs) =
     (let ys = shuffle (tl rs) xs;
          k = (case rs of [] \<Rightarrow> 0 | r # _ \<Rightarrow> r mod (length ys + 1))
      in take k ys @ x # drop k ys)"

text \<open>
  \<open>Math.random()\<close> returns a double in the interval [0, 1).  A draw is modelled by the
  numerator \<open>k\<close> of the value \<open>k / 2^53\<close> (taken modulo \<open>2^53\<close>), so every draw lies in
  [0, 1) by construction.
\<close>

definition random01 :: "nat \<Rightarrow> rat" where
  "random01 k = of_nat (k mod 2 ^ 53) / 2 ^ 53"

text \<open>The number of binary digits of a number.\<close>

fun bitLength :: "nat \<Rightarrow> nat" where
  "bitLength n = (if n = 0 then 0 else Suc (bitLength (n div 2)))"

text \<open>
  Rounding to a significand of 53 binary digits, to nearest with ties to even: the
  rounding of every IEEE-754 double operation, written for a natural number \<open>p\<close>.
\<close>

definition round53 :: "nat \<Rightarrow> nat" where
  "round53 p =
     (if p < 2 ^ 53 then p
      else let sh = bitLength p - 53;
               q = p div 2 ^ sh;
               r = p mod 2 ^ sh;
               q' = (if 2 * r > 2 ^ sh \<or> (2 * r = 2 ^ sh \<and> odd q) then q + 1 else q)
           in q' * 2 ^ sh)"

text \<open>
  \<open>Math.floor(Math.random() * len)\<close>.  The product is a double product: the exact product
  \<open>k * len / 2^53\<close> of the draw \<open>k / 2^53\<close> and the array length (an integer below \<open>2^32\<close>,
  exact as a double) is rounded to 53 significant digits, which is \<open>round53 (k * len) / 2^53\<close>,
  and \<open>Math.floor\<close> of it is the quotient by \<open>2^53\<close>.
\<close>

definition randomIndex :: "nat \<Rightarrow> nat \<Rightarrow> nat" where
  "randomIndex k len = round53 ((k mod 2 ^ 53) * len) div 2 ^ 53"

section \<open>Distractor sampling (QuizMode, TestMode)\<close>

text \<open>The decimal digits of a number, as a template literal \<open>${n}\<close> prints it.\<close>

fun showNat :: "nat \<Rightarrow> string" where
  "showNat n =
     (if n < 10 then [char_of (48 + n)]
      else showNat (n div 10) @ [char_of (48 + n mod 10)])"

text \<open>
  The fallback loop
  \<^verbatim>\<open>while (distractors.length < 3) { distractors.push(`Definition ${distractors.length + 1}`); }\<close>
  with the prefix (\<open>Definition\<close> or \<open>Word\<close>) as a parameter.
\<close>

function padDistractors :: "string \<Rightarrow> string list \<Rightarrow> string list" where
  "padDistractors prefix distractors =
     (if length distractors < 3
      then padDistractors prefix
             (distractors @ [prefix @ '' '' @ showNat (length distractors + 1)])
      else distractors)"
  by pat_completeness auto
termination
  by (relation "measure (\<lambda>(prefix, distractors). 3 - length distractors)") auto

text \<open>
  \<^verbatim>\<open>pool.filter(m => m !== correct).sort(() => Math.random() - 0.5).slice(0, 3)\<close>
  followed by the fallback loop.
\<close>

definition sampleDistractors :: "string \<Rightarrow> nat list \<Rightarrow> string \<Rightarrow> string list \<Rightarrow> string list" where
  "sampleDistractors prefix seed correct pool =
     padDistractors prefix (take 3 (shuffle seed (filter (\<lambda>m. m \<noteq> correct) pool)))"

text \<open>
  The sampler as the specification words it: the placeholders are numbered
  \<open>k = 1, 2, \<dots>\<close> in the order in which they are appended.
\<close>

definition sampleDistractors_spec :: "string \<Rightarrow> nat list \<Rightarrow> string \<Rightarrow> string list \<Rightarrow> string list" where
  "sampleDistractors_spec prefix seed correct pool =
     (let taken = take 3 (shuffle seed (filter (\<lambda>m. m \<noteq> correct) pool))
      in taken @ map (\<lambda>k. prefix @ '' '' @ showNat k) [1 ..< Suc (3 - length taken)])"

text \<open>\<open>[...distractors, correct].sort(() => Math.random() - 0.5)\<close>\<close>

definition buildOptions :: "nat list \<Rightarrow> string list \<Rightarrow> string \<Rightarrow> string list" where
  "buildOptions seed distractors correct = shuffle seed (distractors @ [correct])"

section \<open>Quiz mode (QuizMode, second part of src/types.ts)\<close>

record QuizQuestion =
  qq_id :: string
  qq_card :: Card
  qq_options :: "string list"

text \<open>The random draws one quiz question consumes.\<close>

record QuizDraw =
  qd_distractorSeed :: "nat list"
  qd_optionSeed :: "nat list"
  qd_uuid :: string

definition quizQuestion :: "string list \<Rightarrow> QuizDraw \<Rightarrow> nat \<Rightarrow> Card \<Rightarrow> QuizQuestion" where
  "quizQuestion allMeanings d idx c =
     (let distractors = sampleDistractors ''Definition'' (qd_distractorSeed d) (meaning c) allMeanings;
          options = buildOptions (qd_optionSeed d) distractors (meaning c)
      in \<lparr> qq_id = ''q-'' @ showNat idx @ ''-'' @ take 8 (qd_uuid d),
           qq_card = c,
           qq_options = options \<rparr>)"

text \<open>The question-generation effect: \<open>section.cards.map((card, idx) => ...)\<close>, then one shuffle.\<close>

definition quizQuestions :: "Section \<Rightarrow> (nat \<Rightarrow> QuizDraw) \<Rightarrow> nat list \<Rightarrow> QuizQuestion list" where
  "quizQuestions section draws seed =
     (let allMeanings = map meaning (cards section);
          qs = map (\<lambda>(idx, c). quizQuestion allMeanings (draws idx) idx c)
                   (zip [0 ..< length (cards section)] (cards section))
      in shuffle seed qs)"

record QuizState =
  qz_questions :: "QuizQuestion list"
  qz_userAnswers :: "string \<rightharpoonup> string"
  qz_isDone :: bool



definition calculateScore_quiz :: "QuizState \<Rightarrow> nat" where
  "calculateScore_quiz s =
     foldl (\<lambda>score q. if qz_userAnswers s (qq_id q) = Some (meaning (qq_card q)) then score + 1 else score)
           0 (qz_questions s)"



section \<open>Mixed test mode (TestMode.tsx)\<close>

datatype QuestionType = MCWordToMeaning | MCMeaningToWord | Response

record Question =
  q_id :: string
  q_type :: QuestionType
  q_card :: Card
  q_options :: "string list option"
  q_correctAnswer :: string

text \<open>
  The literals \<open>0.33\<close> and \<open>0.66\<close> of the source are IEEE-754 doubles; their exact values
  are \<open>5944751508129055 / 2^54\<close> and \<open>5944751508129055 / 2^53\<close>.
\<close>

definition threshold033 :: rat where
  "threshold033 = 5944751508129055 / 2 ^ 54"

definition threshold066 :: rat where
  "threshold066 = 5944751508129055 / 2 ^ 53"

text \<open>
  \<^verbatim>\<open>if (rand < 0.33) 'mc-word-to-meaning' else if (rand < 0.66) 'mc-meaning-to-word' else 'response'\<close>
\<close>

definition rollQuestionType :: "rat \<Rightarrow> QuestionType" where
  "rollQuestionType rand =
     (if rand < threshold033 then MCWordToMeaning
      else if rand < threshold066 then MCMeaningToWord
      else Response)"

text \<open>
  The roll as the specification words it: the draw in [0, 1) is cut into three
  intervals of measure 1/3 each.
\<close>

definition rollQuestionType_spec :: "rat \<Rightarrow> QuestionType" where
  "rollQuestionType_spec rand =
     (if rand < 1 / 3 then MCWordToMeaning
      else if rand < 2 / 3 then MCMeaningToWord
      else Response)"

text \<open>The random draws one iteration of the generation loop consumes.\<close>

record TestDraw =
  td_card :: nat
  td_rand :: nat
  td_distractorSeed :: "nat list"
  td_optionSeed :: "nat list"
  td_uuid :: string

text \<open>\<open>numberOfCards + Math.ceil(numberOfCards / 4)\<close>\<close>

definition totalQuestions :: "nat \<Rightarrow> nat" where
  "totalQuestions numberOfCards = numberOfCards + nat \<lceil>(of_nat numberOfCards :: rat) / 4\<rceil>"

text \<open>The body of the generation loop for iteration \<open>i\<close>.\<close>

definition testQuestion :: "Section \<Rightarrow> TestDraw \<Rightarrow> nat \<Rightarrow> Question" where
  "testQuestion section d i =
     (let allMeanings = map meaning (cards section);
          allWords = map vocab (cards section);
          c = cards section ! randomIndex (td_card d) (length (cards section));
          questionType = rollQuestionType (random01 (td_rand d));
          ident = ''q-'' @ showNat i @ ''-'' @ take 8 (td_uuid d)
      in case questionType of
           MCWordToMeaning \<Rightarrow>
             (let distractors = sampleDistractors ''Definition'' (td_distractorSeed d) (meaning c) allMeanings;
                  options = buildOptions (td_optionSeed d) distractors (meaning c)
              in \<lparr> q_id = ident, q_type = questionType, q_card = c,
                   q_options = Some options, q_correctAnswer = meaning c \<rparr>)
         | MCMeaningToWord \<Rightarrow>
             (let distractors = sampleDistractors ''Word'' (td_distractorSeed d) (vocab c) allWords;
                  options = buildOptions (td_optionSeed d) distractors (vocab c)
              in \<lparr> q_id = ident, q_type = questionType, q_card = c,
                   q_options = Some options, q_correctAnswer = vocab c \<rparr>)
         | Response \<Rightarrow>
             \<lparr> q_id = ident, q_type = questionType, q_card = c,
               q_options = None, q_correctAnswer = vocab c \<rparr>)"

text \<open>\<open>for (let i = 0; i < totalQuestions; i++) { ...; generatedQuestions.push(...) }\<close>\<close>

function generateLoop :: "Section \<Rightarrow> (nat \<Rightarrow> TestDraw) \<Rightarrow> nat \<Rightarrow> nat \<Rightarrow> Question list \<Rightarrow> Question list" where
  "generateLoop section draws n i generatedQuestions =
     (if i < n
      then generateLoop section draws n (Suc i)
             (generatedQuestions @ [testQuestion section (draws i) i])
      else generatedQuestions)"
  by pat_completeness auto
termination
  by (relation "measure (\<lambda>(section, draws, n, i, generatedQuestions). n - i)") auto

text \<open>The question-generation effect of the mixed test.\<close>

definition testQuestions :: "Section \<Rightarrow> (nat \<Rightarrow> TestDraw) \<Rightarrow> nat list \<Rightarrow> Question list" where
  "testQuestions section draws seed =
     (let numberOfCards = length (cards section);
          generatedQuestions = generateLoop section draws (totalQuestions numberOfCards) 0 []
      in shuffle seed generatedQuestions)"





text \<open>
  \<open>if (!userAnswer) return false\<close>: a missing entry (\<open>undefined\<close>) and the empty string
  are both falsy.
\<close>

definition isAnswerCorrect :: "(string \<rightharpoonup> string) \<Rightarrow> Question \<Rightarrow> bool" where
  "isAnswerCorrect userAnswers q =
     (case userAnswers (q_id q) of
        None \<Rightarrow> False
      | Some userAnswer \<Rightarrow>
          if userAnswer = [] then False
          else if q_type q = Response
               then normalizeString userAnswer = normalizeString (q_correctAnswer q)
               else userAnswer = q_correctAnswer q)"

definition calculateScore :: "(string \<rightharpoonup> string) \<Rightarrow> Question list \<Rightarrow> nat" where
  "calculateScore userAnswers questions =
     foldl (\<lambda>score q.
              case userAnswers (q_id q) of
                None \<Rightarrow> score
              | Some userAnswer \<Rightarrow>
                  if userAnswer = [] then score
                  else if q_type q = Response
                       then (if normalizeString userAnswer = normalizeString (q_correctAnswer q)
                             then score + 1 else score)
                       else (if userAnswer = q_correctAnswer q then score + 1 else score))
           0 questions"



section \<open>Flashcard mode (FlashcardMode.tsx)\<close>

record FlashcardState =
  fc_cards :: "Card list"
  fc_index :: nat
  fc_isFlipped :: bool
  fc_forgotten :: "Card list"
  fc_remembered :: nat
  fc_isDone :: bool
  fc_pendingAdvances :: nat

text \<open>
  Besides the six state variables of the component the record counts the callbacks
  \<open>setIndex(prev => prev + 1)\<close> that \<open>setTimeout\<close> has scheduled and that have not run yet.

  The state after the mount effect: \<open>setCards([...section.cards].sort(...))\<close>.
\<close>

definition flashcardStart :: "nat list \<Rightarrow> Section \<Rightarrow> FlashcardState" where
  "flashcardStart seed section =
     \<lparr> fc_cards = shuffle seed (cards section), fc_index = 0, fc_isFlipped = False,
       fc_forgotten = [], fc_remembered = 0, fc_isDone = False, fc_pendingAdvances = 0 \<rparr>"

text \<open>
  \<open>handleResponse\<close>.  The tally is changed at once; the index is not: before the last card
  the handler only schedules \<open>setTimeout(() => setIndex(prev => prev + 1), 150)\<close>.
\<close>

definition handleResponse :: "bool \<Rightarrow> FlashcardState \<Rightarrow> FlashcardState" where
  "handleResponse isCorrect s =
     (let s1 = (if \<not> isCorrect
                then s\<lparr>fc_forgotten := fc_forgotten s @ [fc_cards s ! fc_index s]\<rparr>
                else s\<lparr>fc_remembered := fc_remembered s + 1\<rparr>)
      in if int (fc_index s) < int (length (fc_cards s)) - 1
         then s1\<lparr>fc_isFlipped := False, fc_pendingAdvances := fc_pendingAdvances s + 1\<rparr>
         else s1\<lparr>fc_isDone := True\<rparr>)"

text \<open>A scheduled callback runs: \<open>setIndex(prev => prev + 1)\<close>.\<close>

definition advanceIndex :: "FlashcardState \<Rightarrow> FlashcardState" where
  "advanceIndex s =
     s\<lparr>fc_index := fc_index s + 1, fc_pendingAdvances := fc_pendingAdvances s - 1\<rparr>"

definition handleBack :: "FlashcardState \<Rightarrow> FlashcardState" where
  "handleBack s =
     (if fc_index s > 0
      then s\<lparr>fc_isFlipped := False, fc_index := fc_index s - 1\<rparr>
      else s)"

definition restartWithForgotten :: "nat list \<Rightarrow> FlashcardState \<Rightarrow> FlashcardState" where
  "restartWithForgotten seed s =
     s\<lparr>fc_cards := shuffle seed (fc_forgotten s),
       fc_forgotten := [],
       fc_remembered := 0,
       fc_index := 0,
       fc_isFlipped := False,
       fc_isDone := False\<rparr>"

text \<open>
  The events of the component.  A scheduled callback runs whenever one is pending,
  whatever is on the screen.  What the component renders decides which user events exist:
  none when there are no cards; on the summary screen only the restart button, and only
  when \<open>forgotten.length > 0\<close>; otherwise the two answer buttons, the card itself (flip)
  and, when \<open>index > 0\<close>, the back button.  When two answers are clicked within the delay
  the index can run past the last card; the render then throws (\<open>current\<close> is
  \<open>undefined\<close>) and no answer is handled any more.
\<close>

datatype FlashcardEvent = Respond bool | Back | Flip | ReviewMissed "nat list" | TimerFires

fun flashcardStep :: "FlashcardState \<Rightarrow> FlashcardEvent \<Rightarrow> FlashcardState" where
  "flashcardStep s e =
     (if e = TimerFires then (if fc_pendingAdvances s > 0 then advanceIndex s else s)
      else if fc_cards s = [] then s
      else if fc_isDone s then
        (case e of
           ReviewMissed seed \<Rightarrow> if length (fc_forgotten s) > 0 then restartWithForgotten seed s else s
         | _ \<Rightarrow> s)
      else
        (case e of
           Respond isCorrect \<Rightarrow>
             if fc_index s < length (fc_cards s) then handleResponse isCorrect s else s
         | Back \<Rightarrow> if fc_index s > 0 then handleBack s else s
         | Flip \<Rightarrow> s\<lparr>fc_isFlipped := \<not> fc_isFlipped s\<rparr>
         | _ \<Rightarrow> s))"

definition flashcardRun :: "FlashcardState \<Rightarrow> FlashcardEvent list \<Rightarrow> FlashcardState" where
  "flashcardRun s es = foldl flashcardStep s es"

section \<open>Response mode (ResponseMode.tsx)\<close>

record ResponseState =
  rm_cards :: "Card list"
  rm_index :: nat
  rm_userInput :: string
  rm_showFeedback :: bool
  rm_isCorrect :: bool
  rm_incorrect :: "Card list"
  rm_correct :: nat
  rm_isDone :: bool

text \<open>
  \<open>checkAnswer\<close>.  \<open>cards[index]\<close> out of range is \<open>undefined\<close> and reading its \<open>vocab\<close>
  throws a TypeError before any state is set: the result is \<open>None\<close>.
\<close>

definition checkAnswer :: "ResponseState \<Rightarrow> ResponseState option" where
  "checkAnswer s =
     (if rm_index s < length (rm_cards s) then
        (let currentCard = rm_cards s ! rm_index s;
             userAnswer = normalizeString (rm_userInput s);
             correctAnswer = normalizeString (vocab currentCard);
             correct = (userAnswer = correctAnswer);
             s1 = s\<lparr>rm_isCorrect := correct, rm_showFeedback := True\<rparr>
         in Some (if \<not> correct
                  then s1\<lparr>rm_incorrect := rm_incorrect s @ [currentCard]\<rparr>
                  else s1\<lparr>rm_correct := rm_correct s + 1\<rparr>))
      else None)"

definition handleNext :: "ResponseState \<Rightarrow> ResponseState" where
  "handleNext s =
     (if int (rm_index s) < int (length (rm_cards s)) - 1
      then s\<lparr>rm_showFeedback := False, rm_userInput := [], rm_index := rm_index s + 1\<rparr>
      else s\<lparr>rm_isDone := True\<rparr>)"

definition restartWithIncorrect :: "nat list \<Rightarrow> ResponseState \<Rightarrow> ResponseState" where
  "restartWithIncorrect seed s =
     s\<lparr>rm_cards := shuffle seed (rm_incorrect s),
       rm_incorrect := [],
       rm_correct := 0,
       rm_index := 0,
       rm_userInput := [],
       rm_showFeedback := False,
       rm_isDone := False\<rparr>"

section \<open>Listening exercise (ListeningTest.tsx)\<close>

text \<open>An answer is a string or, for multi-select questions, an array of strings.\<close>

datatype Answer = Str string | Arr "string list"

text \<open>
  \<open>checkAnswer\<close> of the listening exercise.  \<open>!userAnswer\<close> holds for a missing entry and
  for the empty string; an array, even an empty one, is truthy.
\<close>

definition checkAnswer_listening :: "(string \<rightharpoonup> Answer) \<Rightarrow> string \<Rightarrow> Answer \<Rightarrow> bool" where
  "checkAnswer_listening userAnswers questionId correctAnswer =
     (case userAnswers questionId of
        None \<Rightarrow> False
      | Some userAnswer \<Rightarrow>
          if userAnswer = Str [] then False
          else
            (case correctAnswer of
               Arr ca \<Rightarrow>
                 (case userAnswer of
                    Arr ua \<Rightarrow> length ca = length ua \<and> list_all (\<lambda>ans. List.member ua ans) ca
                  | Str _ \<Rightarrow> False)
             | Str ca \<Rightarrow>
                 (case userAnswer of
                    Str ua \<Rightarrow> trim (toLowerCase ua) = trim (toLowerCase ca)
                  | Arr _ \<Rightarrow> False)))"

section \<open>Predicates used in the statements\<close>

text \<open>White space occurs in the string only as single space characters.\<close>

fun singleSpaced :: "string \<Rightarrow> bool" where
  "singleSpaced [] = True"
| "singleSpaced (c # cs) =
     (if isSpace c
      then c = CHR '' '' \<and> (case cs of [] \<Rightarrow> True | d # _ \<Rightarrow> \<not> isSpace d) \<and> singleSpaced cs
      else singleSpaced cs)"

text \<open>The three fallback strings of a prefix: \<open>Definition 1\<close>, \<open>Definition 2\<close>, \<open>Definition 3\<close>.\<close>

definition placeholders :: "string \<Rightarrow> string list" where
  "placeholders prefix = map (\<lambda>k. prefix @ '' '' @ showNat k) [1 ..< 4]"

section \<open>Example data\<close>

definition card1 :: Card where
  "card1 = \<lparr> card_id = ''c1'', vocab = ''run'', meaning = ''to move fast'' \<rparr>"

definition card2 :: Card where
  "card2 = \<lparr> card_id = ''c2'', vocab = ''eat'', meaning = ''to take food'' \<rparr>"

definition section2 :: Section where
  "section2 = \<lparr> section_id = ''s'', title = ''Verbs'', description = '''',
                 cards = [card1, card2], createdAt = 0 \<rparr>"



declare generateLoop.simps [simp del]
declare padDistractors.simps [simp del]
declare showNat.simps [simp del]
declare bitLength.simps [simp del]

definition blankCard :: Card where
  "blankCard = \<lparr> card_id = ''c0'', vocab = '''', meaning = ''nothing'' \<rparr>"

definition blankSection :: Section where
  "blankSection = \<lparr> section_id = ''b'', title = ''Imported'', description = '''',
                     cards = [blankCard], createdAt = 0 \<rparr>"

definition responseDraw :: TestDraw where
  "responseDraw = \<lparr> td_card = 0, td_rand = 9007199254740991, td_distractorSeed = [],
                     td_optionSeed = [], td_uuid = ''0f8fad5b-d9cb-469f-a165-70867728950e'' \<rparr>"

definition blankQuestion :: Question where
  "blankQuestion = \<lparr> q_id = ''q-0-0f8fad5b'', q_type = Response, q_card = blankCard,
                      q_options = None, q_correctAnswer = '''' \<rparr>"

definition whitespaceCard :: Card where
  "whitespaceCard = \<lparr> card_id = ''c9'', vocab = ''  '', meaning = ''blank'' \<rparr>"

definition whitespaceQuestion :: Question where
  "whitespaceQuestion = \<lparr> q_id = ''q-1-0f8fad5b'', q_type = Response, q_card = whitespaceCard,
                      q_options = None, q_correctAnswer = ''  '' \<rparr>"

definition responseBlank :: ResponseState where
  "responseBlank = \<lparr> rm_cards = [whitespaceCard], rm_index = 0, rm_userInput = '''',
                      rm_showFeedback = False, rm_isCorrect = False, rm_incorrect = [],
                      rm_correct = 0, rm_isDone = False \<rparr>"

definition plainDraw :: QuizDraw where
  "plainDraw = \<lparr> qd_distractorSeed = [], qd_optionSeed = [],
                  qd_uuid = ''7c9e6679-7425-40de-944b-e07fc1f90ae7'' \<rparr>"

definition definitionSection :: Section where
  "definitionSection =
     \<lparr> section_id = ''d'', title = ''Glossary'', description = '''',
       cards = [\<lparr> card_id = ''c1'', vocab = ''first entry'', meaning = ''Definition 1'' \<rparr>],
       createdAt = 0 \<rparr>"

definition synonymSection :: Section where
  "synonymSection =
     \<lparr> section_id = ''y'', title = ''Synonyms'', description = '''',
       cards = [\<lparr> card_id = ''c1'', vocab = ''run'', meaning = ''to move fast'' \<rparr>,
                \<lparr> card_id = ''c2'', vocab = ''big'', meaning = ''of great size'' \<rparr>,
                \<lparr> card_id = ''c3'', vocab = ''large'', meaning = ''of great size'' \<rparr>,
                \<lparr> card_id = ''c4'', vocab = ''huge'', meaning = ''of great size'' \<rparr>],
       createdAt = 0 \<rparr>"

definition plainDraws :: "nat \<Rightarrow> QuizDraw" where
  "plainDraws i = plainDraw"

definition definitionQuestion :: QuizQuestion where
  "definitionQuestion =
     \<lparr> qq_id = ''q-0-7c9e6679'',
       qq_card = \<lparr> card_id = ''c1'', vocab = ''first entry'', meaning = ''Definition 1'' \<rparr>,
       qq_options = [''Definition 1'', ''Definition 2'', ''Definition 3'', ''Definition 1''] \<rparr>"

definition synonymQuestion :: QuizQuestion where
  "synonymQuestion =
     \<lparr> qq_id = ''q-0-7c9e6679'',
       qq_card = \<lparr> card_id = ''c1'', vocab = ''run'', meaning = ''to move fast'' \<rparr>,
       qq_options = [''of great size'', ''of great size'', ''of great size'', ''to move fast''] \<rparr>"

definition section2Question :: QuizQuestion where
  "section2Question =
     \<lparr> qq_id = ''q-0-7c9e6679'', qq_card = card1,
       qq_options = [''to take food'', ''Definition 2'', ''Definition 3'', ''to move fast''] \<rparr>"

definition wordToMeaningDraw :: TestDraw where
  "wordToMeaningDraw = \<lparr> td_card = 0, td_rand = 0, td_distractorSeed = [],
                          td_optionSeed = [], td_uuid = ''7c9e6679-7425-40de-944b-e07fc1f90ae7'' \<rparr>"

definition meaningToWordDraw :: TestDraw where
  "meaningToWordDraw = \<lparr> td_card = 0, td_rand = 4503599627370496, td_distractorSeed = [],
                          td_optionSeed = [], td_uuid = ''7c9e6679-7425-40de-944b-e07fc1f90ae7'' \<rparr>"

definition mixedDraws :: "nat \<Rightarrow> TestDraw" where
  "mixedDraws i = (if i = 0 then wordToMeaningDraw else meaningToWordDraw)"

definition wordToMeaningQuestion :: Question where
  "wordToMeaningQuestion =
     \<lparr> q_id = ''q-0-7c9e6679'', q_type = MCWordToMeaning, q_card = card1,
       q_options = Some [''to take food'', ''Definition 2'', ''Definition 3'', ''to move fast''],
       q_correctAnswer = ''to move fast'' \<rparr>"

definition meaningToWordQuestion :: Question where
  "meaningToWordQuestion =
     \<lparr> q_id = ''q-1-7c9e6679'', q_type = MCMeaningToWord, q_card = card1,
       q_options = Some [''eat'', ''Word 2'', ''Word 3'', ''run''],
       q_correctAnswer = ''run'' \<rparr>"

definition blankDraws :: "nat \<Rightarrow> TestDraw" where
  "blankDraws i = responseDraw"

definition blankAnswers :: "string \<rightharpoonup> string" where
  "blankAnswers = [''q-0-0f8fad5b'' \<mapsto> '''']"

definition listeningAnswers :: "string \<rightharpoonup> Answer" where
  "listeningAnswers = [''1'' \<mapsto> Str ''ice  cream'']"

section \<open>Properties of the random source and the generation loop\<close>

lemma mset_insert_at: "mset (take k ys @ x # drop k ys) = add_mset x (mset ys)"
proof -
  have "mset (take k ys) + mset (drop k ys) = mset ys"
    by (metis append_take_drop_id mset_append)
  then show ?thesis by simp
qed

lemma mset_shuffle: "mset (shuffle rs xs) = mset xs"
proof (induction xs arbitrary: rs)
  case Nil
  show ?case by simp
next
  case (Cons x xs)
  show ?case
    unfolding shuffle.simps Let_def mset_insert_at
    by (simp add: Cons.IH)
qed

lemma set_shuffle: "set (shuffle rs xs) = set xs"
  using mset_shuffle [of rs xs] by (metis set_mset_mset)

lemma length_shuffle: "length (shuffle rs xs) = length xs"
  using mset_shuffle [of rs xs] by (metis size_mset)

lemma distinct_shuffle: "distinct (shuffle rs xs) = distinct xs"
  using mset_shuffle [of rs xs] by (metis mset_eq_imp_distinct_iff)

lemma count_list_shuffle: "count_list (shuffle rs xs) x = count_list xs x"
  using mset_shuffle [of rs xs] by (metis count_mset)

lemma shuffle_complete: "mset ys = mset xs \<Longrightarrow> \<exists>rs. shuffle rs xs = ys"
proof (induction xs arbitrary: ys)
  case Nil
  then show ?case by simp
next
  case (Cons x xs)
  then have "x \<in> set ys"
    by (metis list.set_intros(1) set_mset_mset)
  then obtain as bs where ys: "ys = as @ x # bs"
    by (meson split_list)
  with Cons.prems have "mset (as @ bs) = mset xs" by simp
  from Cons.IH [OF this] obtain rs where rs: "shuffle rs xs = as @ bs" by blast
  have len: "length as < length (as @ bs) + 1" by simp
  have "shuffle (length as # rs) (x # xs) = ys"
    using rs len by (simp add: Let_def ys)
  then show ?case by blast
qed

lemma totalQuestions_div: "totalQuestions n = n + (n + 3) div 4"
proof -
  have "(of_nat n :: rat) / 4 = of_int (int n) / of_int 4"
    by simp
  then have "\<lceil>(of_nat n :: rat) / 4\<rceil> = - (- int n div 4)"
    by (simp only: ceiling_divide_eq_div)
  also have "\<dots> = int ((n + 3) div 4)"
    by linarith
  finally have "\<lceil>(of_nat n :: rat) / 4\<rceil> = int ((n + 3) div 4)" .
  then show ?thesis by (simp add: totalQuestions_def)
qed

lemma random01_range: "0 \<le> random01 k \<and> random01 k < 1"
  by (simp add: random01_def)

lemma bitLength_upper: "p < 2 ^ bitLength p"
proof (induction p rule: bitLength.induct)
  case (1 n)
  show ?case
  proof (cases "n = 0")
    case True
    then show ?thesis by (subst bitLength.simps) simp
  next
    case False
    with "1.IH" have "n div 2 < 2 ^ bitLength (n div 2)" by simp
    then have "n < 2 * 2 ^ bitLength (n div 2)" by linarith
    with False show ?thesis by (subst bitLength.simps) simp
  qed
qed

lemma bitLength_lower: "0 < p \<Longrightarrow> 2 ^ (bitLength p - 1) \<le> p"
proof (induction p rule: bitLength.induct)
  case (1 n)
  from "1.prems" have n: "n \<noteq> 0" by simp
  show ?case
  proof (cases "n div 2 = 0")
    case True
    then have "bitLength (n div 2) = 0" by (subst bitLength.simps) simp
    with n have "bitLength n = 1" by (subst bitLength.simps) simp
    with "1.prems" show ?thesis by simp
  next
    case False
    with "1.IH" n have ih: "2 ^ (bitLength (n div 2) - 1) \<le> n div 2" by simp
    from False have "bitLength (n div 2) \<noteq> 0" by (subst bitLength.simps) simp
    then obtain b where b: "bitLength (n div 2) = Suc b" by (cases "bitLength (n div 2)") auto
    from n have "bitLength n = Suc (Suc b)" by (subst bitLength.simps) (simp add: b)
    moreover from ih b have "2 * 2 ^ b \<le> n" by simp
    ultimately show ?thesis by simp
  qed
qed

lemma round53_small: "p < 2 ^ 53 \<Longrightarrow> round53 p = p"
  by (simp add: round53_def)

lemma round53_upper:
  assumes "\<not> p < 2 ^ 53"
  shows "2 * round53 p \<le> 2 * p + 2 ^ (bitLength p - 53)"
proof -
  define sh where "sh = bitLength p - 53"
  define q where "q = p div 2 ^ sh"
  define r where "r = p mod 2 ^ sh"
  have p: "p = q * 2 ^ sh + r"
    unfolding q_def r_def by (rule div_mult_mod_eq [symmetric])
  have r: "r < 2 ^ sh"
    by (simp add: r_def)
  show ?thesis
  proof (cases "2 * r > 2 ^ sh \<or> (2 * r = 2 ^ sh \<and> odd q)")
    case True
    then have "round53 p = (q + 1) * 2 ^ sh"
      using assms unfolding round53_def Let_def sh_def [symmetric] q_def [symmetric] r_def [symmetric]
      by simp
    then have "2 * round53 p = 2 * (q * 2 ^ sh) + 2 * 2 ^ sh"
      by (simp add: algebra_simps)
    also have "\<dots> \<le> 2 * (q * 2 ^ sh) + 2 * r + 2 ^ sh"
      using True by linarith
    also have "\<dots> = 2 * p + 2 ^ sh"
      using p by simp
    finally show ?thesis
      by (simp only: sh_def)
  next
    case False
    then have "round53 p = q * 2 ^ sh"
      using assms unfolding round53_def Let_def sh_def [symmetric] q_def [symmetric] r_def [symmetric]
      by simp
    then have "round53 p \<le> p"
      using p by simp
    then show ?thesis by simp
  qed
qed

lemma round53_product_less:
  assumes "k < 2 ^ 53" and "0 < len"
  shows "round53 (k * len) < len * 2 ^ 53"
proof (cases "k * len < 2 ^ 53")
  case True
  then have "round53 (k * len) = k * len"
    by (rule round53_small)
  also have "\<dots> < 2 ^ 53 * len"
    using assms by simp
  finally show ?thesis by (simp add: mult.commute)
next
  case False
  define sh where "sh = bitLength (k * len) - 53"
  from False have pos: "0 < k * len" by (cases "k * len = 0") simp_all
  have "(2::nat) ^ 53 \<le> k * len" using False by simp
  also have "\<dots> < 2 ^ bitLength (k * len)" by (rule bitLength_upper)
  finally have lt: "(2::nat) ^ 53 < 2 ^ bitLength (k * len)" .
  have "53 < bitLength (k * len)"
    by (rule power_less_imp_less_exp [OF _ lt]) simp
  then have bl: "bitLength (k * len) - 1 = sh + 52"
    by (simp add: sh_def)
  have "(2::nat) ^ (sh + 52) \<le> k * len"
    using bitLength_lower [OF pos] by (simp only: bl)
  also have "\<dots> < 2 ^ 53 * len"
    using assms by simp
  finally have "(2::nat) ^ sh * 2 ^ 52 < (2 * len) * 2 ^ 52"
    by (simp add: power_add)
  then have sh: "2 ^ sh < 2 * len"
    by simp
  from assms(1) have "Suc k \<le> 2 ^ 53" by simp
  then have "Suc k * len \<le> 2 ^ 53 * len"
    by (rule mult_le_mono1)
  then have kl: "k * len + len \<le> len * 2 ^ 53"
    by (simp add: mult.commute)
  have "2 * round53 (k * len) \<le> 2 * (k * len) + 2 ^ sh"
    using round53_upper [OF False] by (simp only: sh_def)
  also have "\<dots> < 2 * (k * len) + 2 * len"
    using sh by simp
  also have "\<dots> \<le> 2 * (len * 2 ^ 53)"
    using kl by linarith
  finally show ?thesis by simp
qed

lemma randomIndex_less:
  assumes "0 < len"
  shows "randomIndex k len < len"
proof -
  have "k mod 2 ^ 53 < (2::nat) ^ 53" by simp
  then have "round53 ((k mod 2 ^ 53) * len) < len * 2 ^ 53"
    using assms by (rule round53_product_less)
  then show ?thesis
    unfolding randomIndex_def by (simp only: less_mult_imp_div_less)
qed

lemma randomIndex_zero: "randomIndex 0 len = 0"
  by (simp add: randomIndex_def round53_def)

text \<open>The draw \<open>0.7\<close> (the double \<open>6305039478318694 / 2^53\<close>) on 10 cards: the product rounds to 7.\<close>

lemma randomIndex_example: "randomIndex 6305039478318694 10 = 7"
  by (simp add: randomIndex_def round53_def bitLength.simps Let_def)

lemma generateLoop_eq:
  "generateLoop sec draws n i acc =
     acc @ map (\<lambda>j. testQuestion sec (draws j) j) [i ..< n]"
proof (induction sec draws n i acc rule: generateLoop.induct)
  case (1 sec draws n i acc)
  show ?case
  proof (cases "i < n")
    case True
    then show ?thesis
      using "1.IH" by (subst generateLoop.simps) (simp add: upt_conv_Cons)
  next
    case False
    then show ?thesis by (subst generateLoop.simps) simp
  qed
qed

lemma length_testQuestions:
  "length (testQuestions sec draws seed) = totalQuestions (length (cards sec))"
  by (simp only: testQuestions_def Let_def length_shuffle generateLoop_eq
                 append_Nil length_map length_upt diff_zero)







lemma set_testQuestions:
  "set (testQuestions sec draws seed) =
     (\<lambda>i. testQuestion sec (draws i) i) ` {0 ..< totalQuestions (length (cards sec))}"
  by (simp only: testQuestions_def Let_def set_shuffle generateLoop_eq append_Nil set_map set_upt)

lemma calculateScore_foldl:
  "foldl (\<lambda>score q.
              case userAnswers (q_id q) of
                None \<Rightarrow> score
              | Some userAnswer \<Rightarrow>
                  if userAnswer = [] then score
                  else if q_type q = Response
                       then (if normalizeString userAnswer = normalizeString (q_correctAnswer q)
                             then score + 1 else score)
                       else (if userAnswer = q_correctAnswer q then score + 1 else score))
           acc questions
   = acc + length (filter (isAnswerCorrect userAnswers) questions)"
  by (induction questions arbitrary: acc) (auto simp: isAnswerCorrect_def split: option.splits)

lemma calculateScore_filter:
  "calculateScore userAnswers questions = length (filter (isAnswerCorrect userAnswers) questions)"
  unfolding calculateScore_def by (simp only: calculateScore_foldl add_0)

lemma showNat_0: "showNat 0 = ''0''"
  by code_simp

lemma showNat_1: "showNat (Suc 0) = ''1''"
  by code_simp

lemma showNat_2: "showNat 2 = ''2''"
  by code_simp

lemma showNat_3: "showNat 3 = ''3''"
  by code_simp

lemmas showNat_digits = showNat_0 showNat_1 showNat_2 showNat_3

lemma randomIndex_one: "randomIndex k (Suc 0) = 0"
  using randomIndex_less [of "Suc 0" k] by simp

lemma blankQuestion_generated: "testQuestion blankSection responseDraw 0 = blankQuestion"
proof -
  have "rollQuestionType (random01 (td_rand responseDraw)) = Response"
    by (simp add: responseDraw_def random01_def rollQuestionType_def threshold033_def threshold066_def)
  then show ?thesis
    by (simp add: testQuestion_def Let_def blankSection_def responseDraw_def blankQuestion_def
                  randomIndex_one showNat_digits blankCard_def)
qed

lemma normalizeString_Nil: "normalizeString [] = []"
  by (simp add: normalizeString_def toLowerCase_def trim_def)

lemma normalizeString_spaces: "normalizeString ''  '' = []" "normalizeString '' '' = []"
  by (simp_all add: normalizeString_def toLowerCase_def trim_def lowerChar_def isSpace_def)

lemma collapseWs_singleSpaced: "singleSpaced str \<Longrightarrow> collapseWs str = str"
proof (induction str)
  case Nil
  show ?case by simp
next
  case (Cons c cs)
  show ?case
  proof (cases "isSpace c")
    case True
    with Cons.prems have c: "c = CHR '' ''" and ss: "singleSpaced cs"
      and hd: "(case cs of [] \<Rightarrow> True | d # _ \<Rightarrow> \<not> isSpace d)"
      by simp_all
    from hd have "dropWhile isSpace cs = cs"
      by (cases cs) simp_all
    with True c Cons.IH [OF ss] show ?thesis by simp
  next
    case False
    with Cons.prems have "singleSpaced cs" by simp
    with False Cons.IH show ?thesis by simp
  qed
qed

lemma padDistractors_eq:
  "length ds \<le> 3 \<Longrightarrow>
   padDistractors p ds = ds @ map (\<lambda>k. p @ '' '' @ showNat k) [Suc (length ds) ..< 4]"
proof (induction p ds rule: padDistractors.induct)
  case (1 p ds)
  show ?case
  proof (cases "length ds < 3")
    case True
    then have "padDistractors p ds
                 = padDistractors p (ds @ [p @ '' '' @ showNat (length ds + 1)])"
      by (subst padDistractors.simps) simp
    also have "\<dots> = (ds @ [p @ '' '' @ showNat (length ds + 1)])
                      @ map (\<lambda>k. p @ '' '' @ showNat k) [Suc (Suc (length ds)) ..< 4]"
      using True "1.IH" by simp
    also have "\<dots> = ds @ map (\<lambda>k. p @ '' '' @ showNat k) [Suc (length ds) ..< 4]"
      using True by (simp add: upt_conv_Cons)
    finally show ?thesis .
  next
    case False
    with "1.prems" have "length ds = 3" by simp
    then show ?thesis
      by (subst padDistractors.simps) simp
  qed
qed

lemma mset_take_subset: "mset (take n xs) \<subseteq># mset xs"
proof -
  have "mset xs = mset (take n xs) + mset (drop n xs)"
    by (metis append_take_drop_id mset_append)
  then show ?thesis by simp
qed

lemma length_taken:
  "length (take 3 (shuffle seed (filter (\<lambda>m. m \<noteq> correct) pool)))
     = min 3 (length (filter (\<lambda>m. m \<noteq> correct) pool))"
  by (simp add: length_shuffle min.commute)

lemma sampleDistractors_eq:
  "sampleDistractors prefix seed correct pool
     = take 3 (shuffle seed (filter (\<lambda>m. m \<noteq> correct) pool))
       @ map (\<lambda>k. prefix @ '' '' @ showNat k)
             [Suc (length (take 3 (shuffle seed (filter (\<lambda>m. m \<noteq> correct) pool)))) ..< 4]"
  unfolding sampleDistractors_def
  by (rule padDistractors_eq) (simp add: length_taken)

lemma length_sampleDistractors: "length (sampleDistractors prefix seed correct pool) = 3"
  by (subst sampleDistractors_eq) (simp add: length_shuffle del: shuffle.simps)

lemma set_taken:
  "set (take 3 (shuffle seed (filter (\<lambda>m. m \<noteq> correct) pool))) \<subseteq> set pool - {correct}"
proof -
  have "set (take 3 (shuffle seed (filter (\<lambda>m. m \<noteq> correct) pool)))
          \<subseteq> set (shuffle seed (filter (\<lambda>m. m \<noteq> correct) pool))"
    by (rule set_take_subset)
  also have "\<dots> = set (filter (\<lambda>m. m \<noteq> correct) pool)"
    by (rule set_shuffle)
  also have "\<dots> \<subseteq> set pool - {correct}"
    by auto
  finally show ?thesis .
qed

lemma distinct_taken:
  "distinct pool \<Longrightarrow> distinct (take 3 (shuffle seed (filter (\<lambda>m. m \<noteq> correct) pool)))"
  by (intro distinct_take) (simp add: distinct_shuffle)

lemma placeholders_eq:
  "placeholders prefix = [prefix @ '' 1'', prefix @ '' 2'', prefix @ '' 3'']"
proof -
  have "[1 ..< 4] = [Suc 0, 2, 3]"
    by (simp add: upt_rec)
  then show ?thesis
    by (simp add: placeholders_def showNat_digits)
qed

lemma set_padding:
  "set (map (\<lambda>k. prefix @ '' '' @ showNat k) [Suc m ..< 4]) \<subseteq> set (placeholders prefix)"
  unfolding placeholders_def by auto

lemma distinct_padding:
  "distinct (map (\<lambda>k. prefix @ '' '' @ showNat k) [Suc m ..< 4])"
proof -
  have inj: "inj_on (\<lambda>k. prefix @ '' '' @ showNat k) {Suc 0, 2, 3}"
    by (simp add: inj_on_def showNat_digits)
  have "set [Suc m ..< 4] \<subseteq> {Suc 0, 2, 3}"
    by auto
  with inj have "inj_on (\<lambda>k. prefix @ '' '' @ showNat k) (set [Suc m ..< 4])"
    by (rule inj_on_subset)
  then show ?thesis
    by (simp add: distinct_map)
qed

lemma options_length:
  "length (buildOptions oseed (sampleDistractors prefix dseed correct pool) correct) = 4"
  by (simp add: buildOptions_def length_shuffle length_sampleDistractors del: shuffle.simps)

lemma options_contain_correct:
  "correct \<in> set (buildOptions oseed (sampleDistractors prefix dseed correct pool) correct)"
  by (simp add: buildOptions_def set_shuffle del: shuffle.simps)

lemma set_sampleDistractors:
  "set (sampleDistractors prefix seed correct pool)
     \<subseteq> (set pool - {correct}) \<union> set (placeholders prefix)"
proof -
  have "set (sampleDistractors prefix seed correct pool)
          = set (take 3 (shuffle seed (filter (\<lambda>m. m \<noteq> correct) pool)))
            \<union> set (map (\<lambda>k. prefix @ '' '' @ showNat k)
                 [Suc (length (take 3 (shuffle seed (filter (\<lambda>m. m \<noteq> correct) pool)))) ..< 4])"
    by (subst sampleDistractors_eq) (simp only: set_append)
  then show ?thesis
    using set_taken [of seed correct pool] set_padding [of prefix] by blast
qed

lemma options_count_correct:
  assumes "correct \<notin> set (placeholders prefix)"
  shows "count_list (buildOptions oseed (sampleDistractors prefix dseed correct pool) correct) correct = 1"
proof -
  have "correct \<notin> set (sampleDistractors prefix dseed correct pool)"
    using assms set_sampleDistractors [of prefix dseed correct pool] by blast
  then have "count_list (sampleDistractors prefix dseed correct pool) correct = 0"
    by simp
  then show ?thesis
    by (simp add: buildOptions_def count_list_shuffle del: shuffle.simps)
qed

lemma distinct_sampleDistractors:
  assumes "distinct pool" and "set pool \<inter> set (placeholders prefix) = {}"
  shows "distinct (sampleDistractors prefix seed correct pool)"
proof -
  let ?taken = "take 3 (shuffle seed (filter (\<lambda>m. m \<noteq> correct) pool))"
  let ?pad = "map (\<lambda>k. prefix @ '' '' @ showNat k) [Suc (length ?taken) ..< 4]"
  have "distinct ?taken"
    using assms(1) by (rule distinct_taken)
  moreover have "distinct ?pad"
    by (rule distinct_padding)
  moreover have "set ?taken \<inter> set ?pad = {}"
    using set_taken [of seed correct pool] set_padding [of prefix "length ?taken"] assms(2)
    by blast
  ultimately have "distinct (?taken @ ?pad)"
    by (simp only: distinct_append)
  then show ?thesis
    by (subst sampleDistractors_eq)
qed

lemma options_distinct:
  assumes "distinct pool" and "correct \<in> set pool"
    and "set pool \<inter> set (placeholders prefix) = {}"
  shows "distinct (buildOptions oseed (sampleDistractors prefix dseed correct pool) correct)"
proof -
  have "correct \<notin> set (sampleDistractors prefix dseed correct pool)"
    using assms(2,3) set_sampleDistractors [of prefix dseed correct pool] by blast
  moreover have "distinct (sampleDistractors prefix dseed correct pool)"
    using assms(1,3) by (rule distinct_sampleDistractors)
  ultimately show ?thesis
    by (simp add: buildOptions_def distinct_shuffle del: shuffle.simps)
qed

lemma in_quizQuestions:
  assumes "q \<in> set (quizQuestions sec draws seed)"
  shows "\<exists>idx c. c \<in> set (cards sec) \<and> q = quizQuestion (map meaning (cards sec)) (draws idx) idx c"
proof -
  from assms obtain idx c where "(idx, c) \<in> set (zip [0 ..< length (cards sec)] (cards sec))"
    and "q = quizQuestion (map meaning (cards sec)) (draws idx) idx c"
    by (auto simp: quizQuestions_def Let_def set_shuffle simp del: shuffle.simps)
  moreover from this(1) have "c \<in> set (cards sec)"
    by (rule set_zip_rightD)
  ultimately show ?thesis by blast
qed

lemma in_testQuestions:
  assumes "q \<in> set (testQuestions sec draws seed)"
  shows "\<exists>i. q = testQuestion sec (draws i) i \<and>
             cards sec ! randomIndex (td_card (draws i)) (length (cards sec)) \<in> set (cards sec)"
proof -
  from assms obtain i where i: "i < totalQuestions (length (cards sec))"
    and q: "q = testQuestion sec (draws i) i"
    unfolding set_testQuestions by auto
  from i have "0 < length (cards sec)"
    by (cases "length (cards sec) = 0") (simp_all add: totalQuestions_div)
  then have "randomIndex (td_card (draws i)) (length (cards sec)) < length (cards sec)"
    by (rule randomIndex_less)
  then have "cards sec ! randomIndex (td_card (draws i)) (length (cards sec)) \<in> set (cards sec)"
    by (rule nth_mem)
  with q show ?thesis by blast
qed

lemma quiz_definitionSection:
  "quizQuestions definitionSection plainDraws [] = [definitionQuestion]"
  by code_simp

lemma quiz_synonymSection:
  "hd (quizQuestions synonymSection plainDraws []) = synonymQuestion \<and>
   length (quizQuestions synonymSection plainDraws []) = 4"
  by code_simp

lemma quiz_section2:
  "hd (quizQuestions section2 plainDraws []) = section2Question \<and>
   length (quizQuestions section2 plainDraws []) = 2"
  by code_simp

lemma sample_section2:
  "sampleDistractors ''Definition'' [] ''to move fast'' [''to move fast'', ''to take food'']
     = [''to take food'', ''Definition 2'', ''Definition 3'']"
  "sampleDistractors ''Word'' [] ''run'' [''run'', ''eat''] = [''eat'', ''Word 2'', ''Word 3'']"
  by code_simp+



lemma test_section2:
  "testQuestion section2 (mixedDraws 0) 0 = wordToMeaningQuestion"
  "testQuestion section2 (mixedDraws 1) 1 = meaningToWordQuestion"
proof -
  have a: "rollQuestionType (random01 0) = MCWordToMeaning"
    by (simp add: random01_def rollQuestionType_def threshold033_def)
  have b: "rollQuestionType (random01 4503599627370496) = MCMeaningToWord"
    by (simp add: random01_def rollQuestionType_def threshold033_def threshold066_def)
  show "testQuestion section2 (mixedDraws 0) 0 = wordToMeaningQuestion"
    by (simp add: testQuestion_def Let_def mixedDraws_def wordToMeaningDraw_def section2_def
          card1_def card2_def randomIndex_zero a sample_section2 buildOptions_def showNat_digits
          wordToMeaningQuestion_def)
  show "testQuestion section2 (mixedDraws 1) 1 = meaningToWordQuestion"
    by (simp add: testQuestion_def Let_def mixedDraws_def meaningToWordDraw_def section2_def
          card1_def card2_def randomIndex_zero b sample_section2 buildOptions_def showNat_digits
          meaningToWordQuestion_def)
qed

lemma test_section2_member:
  "wordToMeaningQuestion \<in> set (testQuestions section2 mixedDraws [])"
  "meaningToWordQuestion \<in> set (testQuestions section2 mixedDraws [])"
proof -
  have n: "totalQuestions (length (cards section2)) = 3"
    by (simp add: totalQuestions_div section2_def)
  have "testQuestion section2 (mixedDraws 0) 0 \<in> set (testQuestions section2 mixedDraws [])"
    unfolding set_testQuestions n by (intro imageI) simp
  then show "wordToMeaningQuestion \<in> set (testQuestions section2 mixedDraws [])"
    by (simp only: test_section2)
  have "testQuestion section2 (mixedDraws 1) 1 \<in> set (testQuestions section2 mixedDraws [])"
    unfolding set_testQuestions n by (intro imageI) simp
  then show "meaningToWordQuestion \<in> set (testQuestions section2 mixedDraws [])"
    by (simp only: test_section2)
qed

lemma quiz_options:
  assumes "q \<in> set (quizQuestions sec draws seed)"
  shows "length (qq_options q) = 4"
    and "meaning (qq_card q) \<in> set (qq_options q)"
    and "meaning (qq_card q) \<notin> set (placeholders ''Definition'') \<Longrightarrow>
           count_list (qq_options q) (meaning (qq_card q)) = 1"
    and "distinct (map meaning (cards sec)) \<Longrightarrow>
         set (map meaning (cards sec)) \<inter> set (placeholders ''Definition'') = {} \<Longrightarrow>
           distinct (qq_options q)"
proof -
  from in_quizQuestions [OF assms] obtain idx c where c: "c \<in> set (cards sec)"
    and q: "q = quizQuestion (map meaning (cards sec)) (draws idx) idx c"
    by blast
  have card: "qq_card q = c"
    by (simp add: q quizQuestion_def Let_def)
  have opts: "qq_options q =
      buildOptions (qd_optionSeed (draws idx))
        (sampleDistractors ''Definition'' (qd_distractorSeed (draws idx)) (meaning c)
           (map meaning (cards sec)))
        (meaning c)"
    by (simp add: q quizQuestion_def Let_def)
  show "length (qq_options q) = 4"
    unfolding opts by (rule options_length)
  show "meaning (qq_card q) \<in> set (qq_options q)"
    unfolding opts card by (rule options_contain_correct)
  show "count_list (qq_options q) (meaning (qq_card q)) = 1"
    if "meaning (qq_card q) \<notin> set (placeholders ''Definition'')"
    using that unfolding opts card by (rule options_count_correct)
  show "distinct (qq_options q)"
    if "distinct (map meaning (cards sec))"
      and "set (map meaning (cards sec)) \<inter> set (placeholders ''Definition'') = {}"
  proof -
    have "meaning c \<in> set (map meaning (cards sec))"
      using c by simp
    with that show ?thesis
      unfolding opts by (intro options_distinct)
  qed
qed

lemma test_options_wordToMeaning:
  assumes "t \<in> set (testQuestions sec draws seed)" and "q_type t = MCWordToMeaning"
  shows "\<exists>options. q_options t = Some options \<and>
           q_correctAnswer t = meaning (q_card t) \<and>
           length options = 4 \<and>
           q_correctAnswer t \<in> set options \<and>
           (q_correctAnswer t \<notin> set (placeholders ''Definition'') \<longrightarrow>
              count_list options (q_correctAnswer t) = 1) \<and>
           (distinct (map meaning (cards sec)) \<and>
            set (map meaning (cards sec)) \<inter> set (placeholders ''Definition'') = {} \<longrightarrow>
              distinct options)"
proof -
  from in_testQuestions [OF assms(1)] obtain i where q: "t = testQuestion sec (draws i) i"
    and mem: "cards sec ! randomIndex (td_card (draws i)) (length (cards sec)) \<in> set (cards sec)"
    by blast
  define c where "c = cards sec ! randomIndex (td_card (draws i)) (length (cards sec))"
  define options where "options =
      buildOptions (td_optionSeed (draws i))
        (sampleDistractors ''Definition'' (td_distractorSeed (draws i)) (meaning c)
           (map meaning (cards sec)))
        (meaning c)"
  from assms(2) have roll: "rollQuestionType (random01 (td_rand (draws i))) = MCWordToMeaning"
    unfolding q testQuestion_def Let_def by (simp split: QuestionType.splits)
  have 1: "q_options t = Some options" "q_correctAnswer t = meaning c" "q_card t = c"
    unfolding q testQuestion_def Let_def roll options_def c_def by simp_all
  have inpool: "meaning c \<in> set (map meaning (cards sec))"
    using mem unfolding c_def by simp
  have 2: "length options = 4"
    unfolding options_def by (rule options_length)
  have 3: "meaning c \<in> set options"
    unfolding options_def by (rule options_contain_correct)
  have 4: "meaning c \<notin> set (placeholders ''Definition'') \<longrightarrow> count_list options (meaning c) = 1"
    unfolding options_def using options_count_correct by blast
  have 5: "distinct (map meaning (cards sec)) \<and>
            set (map meaning (cards sec)) \<inter> set (placeholders ''Definition'') = {} \<longrightarrow>
              distinct options"
    unfolding options_def using options_distinct [OF _ inpool] by blast
  from 1 2 3 4 5 show ?thesis by simp
qed

lemma test_options_meaningToWord:
  assumes "t \<in> set (testQuestions sec draws seed)" and "q_type t = MCMeaningToWord"
  shows "\<exists>options. q_options t = Some options \<and>
           q_correctAnswer t = vocab (q_card t) \<and>
           length options = 4 \<and>
           q_correctAnswer t \<in> set options \<and>
           (q_correctAnswer t \<notin> set (placeholders ''Word'') \<longrightarrow>
              count_list options (q_correctAnswer t) = 1) \<and>
           (distinct (map vocab (cards sec)) \<and>
            set (map vocab (cards sec)) \<inter> set (placeholders ''Word'') = {} \<longrightarrow>
              distinct options)"
proof -
  from in_testQuestions [OF assms(1)] obtain i where q: "t = testQuestion sec (draws i) i"
    and mem: "cards sec ! randomIndex (td_card (draws i)) (length (cards sec)) \<in> set (cards sec)"
    by blast
  define c where "c = cards sec ! randomIndex (td_card (draws i)) (length (cards sec))"
  define options where "options =
      buildOptions (td_optionSeed (draws i))
        (sampleDistractors ''Word'' (td_distractorSeed (draws i)) (vocab c)
           (map vocab (cards sec)))
        (vocab c)"
  from assms(2) have roll: "rollQuestionType (random01 (td_rand (draws i))) = MCMeaningToWord"
    unfolding q testQuestion_def Let_def by (simp split: QuestionType.splits)
  have 1: "q_options t = Some options" "q_correctAnswer t = vocab c" "q_card t = c"
    unfolding q testQuestion_def Let_def roll options_def c_def by simp_all
  have inpool: "vocab c \<in> set (map vocab (cards sec))"
    using mem unfolding c_def by simp
  have 2: "length options = 4"
    unfolding options_def by (rule options_length)
  have 3: "vocab c \<in> set options"
    unfolding options_def by (rule options_contain_correct)
  have 4: "vocab c \<notin> set (placeholders ''Word'') \<longrightarrow> count_list options (vocab c) = 1"
    unfolding options_def using options_count_correct by blast
  have 5: "distinct (map vocab (cards sec)) \<and>
            set (map vocab (cards sec)) \<inter> set (placeholders ''Word'') = {} \<longrightarrow>
              distinct options"
    unfolding options_def using options_distinct [OF _ inpool] by blast
  from 1 2 3 4 5 show ?thesis by simp
qed

section \<open>Mixed test: number of questions\<close>

text \<open>
  Claim C2.  For a section of \<open>n\<close> cards (also \<open>n = 0\<close>) the mixed test generates exactly
  \<open>n + ceil(n / 4)\<close> questions, whatever the random draws are: 13 questions for 10 cards,
  5 for 4 cards, 2 for one card and none for an empty section.
\<close>

theorem mixed_test_question_count:
  "length (testQuestions section draws seed)
     = length (cards section) + nat \<lceil>(of_nat (length (cards section)) :: rat) / 4\<rceil> \<and>
   length (testQuestions (section\<lparr>cards := replicate 10 c\<rparr>) draws seed) = 13 \<and>
   length (testQuestions (section\<lparr>cards := replicate 4 c\<rparr>) draws seed) = 5 \<and>
   length (testQuestions (section\<lparr>cards := [c]\<rparr>) draws seed) = 2 \<and>
   length (testQuestions (section\<lparr>cards := []\<rparr>) draws seed) = 0"
proof -
  have "length (testQuestions section draws seed)
     = length (cards section) + nat \<lceil>(of_nat (length (cards section)) :: rat) / 4\<rceil>"
    by (simp only: length_testQuestions totalQuestions_def)
  moreover have "length (testQuestions (section\<lparr>cards := replicate 10 c\<rparr>) draws seed) = 13"
    by (simp add: length_testQuestions totalQuestions_div)
  moreover have "length (testQuestions (section\<lparr>cards := replicate 4 c\<rparr>) draws seed) = 5"
    by (simp add: length_testQuestions totalQuestions_div)
  moreover have "length (testQuestions (section\<lparr>cards := [c]\<rparr>) draws seed) = 2"
    by (simp add: length_testQuestions totalQuestions_div)
  moreover have "length (testQuestions (section\<lparr>cards := []\<rparr>) draws seed) = 0"
    by (simp add: length_testQuestions totalQuestions_div)
  ultimately show ?thesis by blast
qed

section \<open>Stored answers of quiz mode and of the mixed test\<close>



section \<open>Flashcard mode: tallies after going back\<close>

text \<open>
  Claim C5, evaluated on a section of two cards.  The user answers the first card, waits
  for the next card, goes back, answers the first card again, waits, and answers the
  second card.  The session ends with \<open>remembered + forgotten.length = 3\<close> for 2 cards.
  When the first answer was ``forgot'' and the second ``got it'', the first card is still
  in the forgotten list.
\<close>

theorem flashcard_goBack_double_counts:
  "(let s = flashcardRun (flashcardStart [] section2)
              [Respond True, TimerFires, Back, Respond True, TimerFires, Respond True]
    in fc_isDone s \<and> length (fc_cards s) = 2 \<and> fc_remembered s = 3 \<and> fc_forgotten s = [] \<and>
       fc_remembered s + length (fc_forgotten s) \<noteq> length (fc_cards s)) \<and>
   (let s = flashcardRun (flashcardStart [] section2)
              [Respond False, TimerFires, Back, Respond True, TimerFires, Respond True]
    in fc_isDone s \<and> length (fc_cards s) = 2 \<and> fc_remembered s = 2 \<and> fc_forgotten s = [card1] \<and>
       fc_remembered s + length (fc_forgotten s) \<noteq> length (fc_cards s))"
  by (simp add: flashcardRun_def flashcardStart_def section2_def handleResponse_def handleBack_def
                advanceIndex_def Let_def)

section \<open>Flashcard mode: going back\<close>

text \<open>
  Claim C8.  \<open>handleBack\<close> at index 0 leaves the state unchanged; at an index
  \<open>i > 0\<close> it moves to \<open>i - 1\<close> and leaves the remembered count, the forgotten list,
  the cards, the done flag and the scheduled callbacks as they are.  The back button of a
  session in progress runs exactly this handler.
\<close>

theorem goBack_frame:
  "(fc_index s = 0 \<longrightarrow> handleBack s = s) \<and>
   (fc_index s > 0 \<longrightarrow>
      fc_index (handleBack s) = fc_index s - 1 \<and>
      fc_remembered (handleBack s) = fc_remembered s \<and>
      fc_forgotten (handleBack s) = fc_forgotten s \<and>
      fc_cards (handleBack s) = fc_cards s \<and>
      fc_isDone (handleBack s) = fc_isDone s \<and>
      fc_pendingAdvances (handleBack s) = fc_pendingAdvances s) \<and>
   (fc_cards s \<noteq> [] \<and> \<not> fc_isDone s \<longrightarrow> flashcardStep s Back = handleBack s)"
  by (simp add: handleBack_def)

theorem goBack_frame_witness:
  "(let s0 = flashcardStart [] section2 in fc_index s0 = 0 \<and> handleBack s0 = s0) \<and>
   (let s1 = flashcardRun (flashcardStart [] section2) [Respond True, TimerFires]
    in fc_index s1 = 1 \<and> fc_cards s1 \<noteq> [] \<and> \<not> fc_isDone s1 \<and>
       fc_index (handleBack s1) = 0 \<and> fc_remembered (handleBack s1) = 1 \<and>
       fc_forgotten (handleBack s1) = [] \<and> flashcardStep s1 Back = handleBack s1)"
proof -
  define s1 where "s1 = flashcardRun (flashcardStart [] section2) [Respond True, TimerFires]"
  have s1: "s1 = \<lparr> fc_cards = [card1, card2], fc_index = 1, fc_isFlipped = False,
                   fc_forgotten = [], fc_remembered = 1, fc_isDone = False,
                   fc_pendingAdvances = 0 \<rparr>"
    by (simp add: s1_def flashcardRun_def flashcardStart_def section2_def handleResponse_def
                  advanceIndex_def Let_def)
  have a: "fc_index (flashcardStart [] section2) = 0"
    by (simp add: flashcardStart_def)
  show ?thesis
    using goBack_frame [of "flashcardStart [] section2"] goBack_frame [of s1] a
    unfolding s1_def [symmetric] Let_def by (simp add: s1)
qed

section \<open>Restarting with the missed cards\<close>

text \<open>
  What the two restart handlers do in any state: the new card sequence is a rearrangement
  of the list of missed cards the component has accumulated, every rearrangement of it
  comes out for some random draws, and index and tallies are reset.
\<close>

lemma restartWithForgotten_deck:
  "mset (fc_cards (restartWithForgotten seed s)) = mset (fc_forgotten s) \<and>
   fc_index (restartWithForgotten seed s) = 0 \<and>
   fc_forgotten (restartWithForgotten seed s) = [] \<and>
   fc_remembered (restartWithForgotten seed s) = 0 \<and>
   \<not> fc_isDone (restartWithForgotten seed s)"
  by (simp add: restartWithForgotten_def mset_shuffle del: shuffle.simps)

lemma restartWithIncorrect_deck:
  "mset (rm_cards (restartWithIncorrect seed r)) = mset (rm_incorrect r) \<and>
   rm_index (restartWithIncorrect seed r) = 0 \<and>
   rm_incorrect (restartWithIncorrect seed r) = [] \<and>
   rm_correct (restartWithIncorrect seed r) = 0 \<and>
   rm_userInput (restartWithIncorrect seed r) = [] \<and>
   \<not> rm_showFeedback (restartWithIncorrect seed r) \<and>
   \<not> rm_isDone (restartWithIncorrect seed r)"
  by (simp add: restartWithIncorrect_def mset_shuffle del: shuffle.simps)

lemma restart_any_order:
  "mset deck = mset (fc_forgotten s) \<Longrightarrow> \<exists>seed. fc_cards (restartWithForgotten seed s) = deck"
  "mset deck' = mset (rm_incorrect r) \<Longrightarrow> \<exists>seed. rm_cards (restartWithIncorrect seed r) = deck'"
  using shuffle_complete [of deck "fc_forgotten s"] shuffle_complete [of deck' "rm_incorrect r"]
  by (simp_all add: restartWithForgotten_def restartWithIncorrect_def del: shuffle.simps)

text \<open>
  Claim C7, evaluated on a section of two cards in flashcard mode.  The user answers
  ``forgot'' on the first card, waits for the next card, goes back, answers ``forgot'' on
  the first card again, waits, and answers ``forgot'' on the second card.  The forgotten
  list is then \<open>[card1, card1, card2]\<close>, and ``Review Missed'' starts a session of 3 cards
  in which the first card occurs twice, whatever the shuffle.  When the second answer on
  the first card is ``got it'', the restart still replays the first card.
\<close>

theorem restartWithMissed_after_goBack:
  "(let s = flashcardRun (flashcardStart [] section2)
              [Respond False, TimerFires, Back, Respond False, TimerFires, Respond False];
        s' = flashcardStep s (ReviewMissed seed)
    in fc_isDone s \<and> fc_cards s = [card1, card2] \<and> fc_forgotten s = [card1, card1, card2] \<and>
       \<not> fc_isDone s' \<and> fc_index s' = 0 \<and> fc_forgotten s' = [] \<and> fc_remembered s' = 0 \<and>
       mset (fc_cards s') = {#card1, card1, card2#} \<and>
       length (fc_cards s') = 3 \<and> \<not> distinct (fc_cards s')) \<and>
   (let s = flashcardRun (flashcardStart [] section2)
              [Respond False, TimerFires, Back, Respond True, TimerFires, Respond True];
        s' = flashcardStep s (ReviewMissed seed)
    in fc_isDone s \<and> fc_cards s = [card1, card2] \<and> fc_remembered s = 2 \<and>
       fc_forgotten s = [card1] \<and> fc_cards s' = [card1])"
proof -
  define s where "s = flashcardRun (flashcardStart [] section2)
              [Respond False, TimerFires, Back, Respond False, TimerFires, Respond False]"
  define t where "t = flashcardRun (flashcardStart [] section2)
              [Respond False, TimerFires, Back, Respond True, TimerFires, Respond True]"
  have s: "s = \<lparr> fc_cards = [card1, card2], fc_index = 1, fc_isFlipped = False,
                 fc_forgotten = [card1, card1, card2], fc_remembered = 0, fc_isDone = True,
                 fc_pendingAdvances = 0 \<rparr>"
    by (simp add: s_def flashcardRun_def flashcardStart_def section2_def handleResponse_def
                  handleBack_def advanceIndex_def Let_def)
  have t: "t = \<lparr> fc_cards = [card1, card2], fc_index = 1, fc_isFlipped = False,
                 fc_forgotten = [card1], fc_remembered = 2, fc_isDone = True,
                 fc_pendingAdvances = 0 \<rparr>"
    by (simp add: t_def flashcardRun_def flashcardStart_def section2_def handleResponse_def
                  handleBack_def advanceIndex_def Let_def)
  have step_s: "flashcardStep s (ReviewMissed seed) = restartWithForgotten seed s"
    by (simp add: s)
  have step_t: "flashcardStep t (ReviewMissed seed) = restartWithForgotten seed t"
    by (simp add: t)
  have m: "mset (fc_cards (restartWithForgotten seed s)) = mset [card1, card1, card2]"
    using restartWithForgotten_deck [of seed s] by (simp add: s)
  then have len: "length (fc_cards (restartWithForgotten seed s)) = 3"
    by (metis length_Cons list.size(3) numeral_3_eq_3 size_mset)
  have "\<not> distinct [card1, card1, card2]" by simp
  with m have nd: "\<not> distinct (fc_cards (restartWithForgotten seed s))"
    by (metis mset_eq_imp_distinct_iff)
  have one: "fc_cards (restartWithForgotten seed t) = [card1]"
    by (simp add: t restartWithForgotten_def Let_def)
  have rest: "\<not> fc_isDone (restartWithForgotten seed s)" "fc_index (restartWithForgotten seed s) = 0"
    "fc_forgotten (restartWithForgotten seed s) = []" "fc_remembered (restartWithForgotten seed s) = 0"
    using restartWithForgotten_deck [of seed s] by simp_all
  have facts_s: "fc_isDone s" "fc_cards s = [card1, card2]" "fc_forgotten s = [card1, card1, card2]"
    by (simp_all add: s)
  have facts_t: "fc_isDone t" "fc_cards t = [card1, card2]" "fc_remembered t = 2"
    "fc_forgotten t = [card1]"
    by (simp_all add: t)
  show ?thesis
    unfolding s_def [symmetric] t_def [symmetric] Let_def step_s step_t
    using m len nd one rest facts_s facts_t by simp
qed

section \<open>Grading when both strings normalise to the empty string\<close>

text \<open>
  Claim C1 as stated fails in the mixed test.  A section with a card whose \<open>vocab\<close> is
  empty yields the free-text question \<open>blankQuestion\<close>; with the empty string stored as
  its answer both normalised strings are empty and the grading rule says ``correct'',
  but \<open>isAnswerCorrect\<close> says ``incorrect'' and \<open>calculateScore\<close> counts nothing, because
  of the guard \<open>if (!userAnswer) return false\<close>.
\<close>

theorem empty_answer_not_correct_in_mixed_test:
  "blankQuestion \<in> set (testQuestions blankSection blankDraws []) \<and>
   blankAnswers (q_id blankQuestion) = Some '''' \<and>
   normalizeString '''' = '''' \<and>
   normalizeString (q_correctAnswer blankQuestion) = '''' \<and>
   gradeFreeText '''' (q_correctAnswer blankQuestion) \<and>
   \<not> isAnswerCorrect blankAnswers blankQuestion \<and>
   calculateScore blankAnswers [blankQuestion] = 0"
proof -
  have "(0::nat) < totalQuestions (length (cards blankSection))"
    by (simp add: totalQuestions_div blankSection_def)
  then have "testQuestion blankSection (blankDraws 0) 0
               \<in> set (testQuestions blankSection blankDraws [])"
    unfolding set_testQuestions by (intro imageI) simp
  then have a: "blankQuestion \<in> set (testQuestions blankSection blankDraws [])"
    by (simp only: blankDraws_def blankQuestion_generated)
  have e: "blankAnswers (q_id blankQuestion) = Some ''''"
    by (simp add: blankAnswers_def blankQuestion_def)
  have b: "\<not> isAnswerCorrect blankAnswers blankQuestion"
    by (simp add: isAnswerCorrect_def e)
  have c: "calculateScore blankAnswers [blankQuestion] = 0"
    using b by (simp add: calculateScore_filter)
  have d: "q_correctAnswer blankQuestion = ''''"
    by (simp add: blankQuestion_def)
  show ?thesis
    using a b c e by (simp add: d normalizeString_Nil gradeFreeText_def)
qed

text \<open>
  Claim C1, amended.  Whenever both normalised strings are empty the grading rule returns
  true.  Response mode's \<open>checkAnswer\<close> then marks the answer correct and counts it.  The
  mixed test's \<open>isAnswerCorrect\<close> and \<open>calculateScore\<close> do so when the stored answer
  is a non-empty string (white space only); a missing or empty stored answer is graded
  incorrect.  \<open>calculateScore\<close> counts exactly the questions \<open>isAnswerCorrect\<close> accepts.
\<close>

theorem both_empty_grading:
  "(normalizeString u = [] \<and> normalizeString c = [] \<longrightarrow> gradeFreeText u c) \<and>
   (rm_index s < length (rm_cards s) \<and> normalizeString (rm_userInput s) = [] \<and>
    normalizeString (vocab (rm_cards s ! rm_index s)) = [] \<longrightarrow>
      (\<exists>s'. checkAnswer s = Some s' \<and> rm_isCorrect s' \<and> rm_showFeedback s' \<and>
            rm_correct s' = rm_correct s + 1 \<and> rm_incorrect s' = rm_incorrect s)) \<and>
   (q_type q = Response \<and> userAnswers (q_id q) = Some u \<and> u \<noteq> [] \<and>
    normalizeString u = [] \<and> normalizeString (q_correctAnswer q) = [] \<longrightarrow>
      isAnswerCorrect userAnswers q \<and> calculateScore userAnswers [q] = 1) \<and>
   (userAnswers (q_id q) = None \<or> userAnswers (q_id q) = Some [] \<longrightarrow>
      \<not> isAnswerCorrect userAnswers q \<and> calculateScore userAnswers [q] = 0) \<and>
   calculateScore userAnswers questions = length (filter (isAnswerCorrect userAnswers) questions)"
proof -
  have 1: "normalizeString u = [] \<and> normalizeString c = [] \<longrightarrow> gradeFreeText u c"
    by (simp add: gradeFreeText_def)
  have 2: "rm_index s < length (rm_cards s) \<and> normalizeString (rm_userInput s) = [] \<and>
    normalizeString (vocab (rm_cards s ! rm_index s)) = [] \<longrightarrow>
      (\<exists>s'. checkAnswer s = Some s' \<and> rm_isCorrect s' \<and> rm_showFeedback s' \<and>
            rm_correct s' = rm_correct s + 1 \<and> rm_incorrect s' = rm_incorrect s)"
    by (simp add: checkAnswer_def Let_def)
  have 3: "q_type q = Response \<and> userAnswers (q_id q) = Some u \<and> u \<noteq> [] \<and>
    normalizeString u = [] \<and> normalizeString (q_correctAnswer q) = [] \<longrightarrow>
      isAnswerCorrect userAnswers q \<and> calculateScore userAnswers [q] = 1"
    by (auto simp: calculateScore_filter isAnswerCorrect_def)
  have 4: "userAnswers (q_id q) = None \<or> userAnswers (q_id q) = Some [] \<longrightarrow>
      \<not> isAnswerCorrect userAnswers q \<and> calculateScore userAnswers [q] = 0"
    by (auto simp: calculateScore_filter isAnswerCorrect_def)
  show ?thesis
    using 1 2 3 4 calculateScore_filter [of userAnswers questions] by blast
qed

theorem both_empty_grading_witness:
  "gradeFreeText '' '' ''  '' \<and>
   (\<exists>s'. checkAnswer responseBlank = Some s' \<and> rm_isCorrect s' \<and> rm_correct s' = 1 \<and> rm_incorrect s' = []) \<and>
   isAnswerCorrect [''q-1-0f8fad5b'' \<mapsto> '' ''] whitespaceQuestion \<and>
   calculateScore [''q-1-0f8fad5b'' \<mapsto> '' ''] [whitespaceQuestion] = 1 \<and>
   \<not> isAnswerCorrect [''q-1-0f8fad5b'' \<mapsto> ''''] whitespaceQuestion \<and>
   \<not> isAnswerCorrect Map.empty whitespaceQuestion"
proof -
  have r: "rm_index responseBlank < length (rm_cards responseBlank) \<and>
           normalizeString (rm_userInput responseBlank) = [] \<and>
           normalizeString (vocab (rm_cards responseBlank ! rm_index responseBlank)) = []"
    by (simp add: responseBlank_def whitespaceCard_def normalizeString_spaces normalizeString_Nil)
  have q: "q_type whitespaceQuestion = Response \<and> q_id whitespaceQuestion = ''q-1-0f8fad5b'' \<and>
           normalizeString (q_correctAnswer whitespaceQuestion) = []"
    by (simp add: whitespaceQuestion_def normalizeString_spaces)
  have f: "rm_correct responseBlank = 0 \<and> rm_incorrect responseBlank = []"
    by (simp add: responseBlank_def)
  show ?thesis
    using both_empty_grading [of "'' ''" "''  ''" responseBlank whitespaceQuestion
                                 "[''q-1-0f8fad5b'' \<mapsto> '' '']" "[]"]
          both_empty_grading [of "'' ''" "''  ''" responseBlank whitespaceQuestion
                                 "[''q-1-0f8fad5b'' \<mapsto> '''']" "[]"]
          both_empty_grading [of "'' ''" "''  ''" responseBlank whitespaceQuestion
                                 "Map.empty" "[]"]
          r q f
    by (auto simp: normalizeString_spaces)
qed

section \<open>The listening exercise against the core grading rule\<close>

text \<open>
  Claim C9 as stated fails: the listening exercise compares
  \<open>userAnswer.toLowerCase().trim()\<close> with \<open>correctAnswer.toLowerCase().trim()\<close> and does
  not collapse runs of white space.  The answer \<open>ice  cream\<close> (two spaces) for the
  reference \<open>ice cream\<close> is rejected by the listening exercise and accepted by the core
  rule.
\<close>

theorem listening_grades_differently:
  "listeningAnswers ''1'' = Some (Str ''ice  cream'') \<and>
   \<not> checkAnswer_listening listeningAnswers ''1'' (Str ''ice cream'') \<and>
   gradeFreeText ''ice  cream'' ''ice cream''"
  by (simp add: listeningAnswers_def checkAnswer_listening_def gradeFreeText_def
                normalizeString_def toLowerCase_def trim_def lowerChar_def isSpace_def)

text \<open>
  Claim C9, amended.  Every string answer the listening exercise accepts is accepted by
  the core normalise-then-compare rule.  The two verdicts are the same for a non-empty
  answer when, after lower-casing and trimming, answer and reference contain white space
  only as single space characters.  A missing or empty answer is rejected by the
  listening exercise.
\<close>

theorem listening_refines_core:
  "(userAnswers questionId = Some (Str u) \<and>
    checkAnswer_listening userAnswers questionId (Str c) \<longrightarrow> gradeFreeText u c) \<and>
   (userAnswers questionId = Some (Str u) \<and> u \<noteq> [] \<and>
    singleSpaced (trim (toLowerCase u)) \<and> singleSpaced (trim (toLowerCase c)) \<longrightarrow>
      checkAnswer_listening userAnswers questionId (Str c) = gradeFreeText u c) \<and>
   (userAnswers questionId = None \<or> userAnswers questionId = Some (Str []) \<longrightarrow>
      \<not> checkAnswer_listening userAnswers questionId (Str c))"
proof -
  have 1: "userAnswers questionId = Some (Str u) \<and>
    checkAnswer_listening userAnswers questionId (Str c) \<longrightarrow> gradeFreeText u c"
    by (auto simp: checkAnswer_listening_def gradeFreeText_def normalizeString_def
             split: if_splits)
  have 2: "userAnswers questionId = Some (Str u) \<and> u \<noteq> [] \<and>
    singleSpaced (trim (toLowerCase u)) \<and> singleSpaced (trim (toLowerCase c)) \<longrightarrow>
      checkAnswer_listening userAnswers questionId (Str c) = gradeFreeText u c"
    by (auto simp: checkAnswer_listening_def gradeFreeText_def normalizeString_def
                   collapseWs_singleSpaced)
  have 3: "userAnswers questionId = None \<or> userAnswers questionId = Some (Str []) \<longrightarrow>
      \<not> checkAnswer_listening userAnswers questionId (Str c)"
    by (auto simp: checkAnswer_listening_def)
  from 1 2 3 show ?thesis by blast
qed

theorem listening_refines_core_witness:
  "checkAnswer_listening [''1'' \<mapsto> Str '' Ice Cream''] ''1'' (Str ''ice cream'') \<and>
   gradeFreeText '' Ice Cream'' ''ice cream'' \<and>
   singleSpaced (trim (toLowerCase '' Ice Cream'')) \<and>
   singleSpaced (trim (toLowerCase ''ice cream'')) \<and>
   \<not> checkAnswer_listening [''1'' \<mapsto> Str ''''] ''1'' (Str ''ice cream'') \<and>
   \<not> checkAnswer_listening Map.empty ''1'' (Str ''ice cream'')"
proof -
  have a: "checkAnswer_listening [''1'' \<mapsto> Str '' Ice Cream''] ''1'' (Str ''ice cream'')"
    by code_simp
  have b: "singleSpaced (trim (toLowerCase '' Ice Cream''))"
    by code_simp
  have c: "singleSpaced (trim (toLowerCase ''ice cream''))"
    by (simp add: toLowerCase_def trim_def lowerChar_def isSpace_def)
  show ?thesis
    using a b c
      listening_refines_core [of "[''1'' \<mapsto> Str '' Ice Cream'']" "''1''" "'' Ice Cream''" "''ice cream''"]
      listening_refines_core [of "[''1'' \<mapsto> Str '''']" "''1''" "''''" "''ice cream''"]
      listening_refines_core [of "Map.empty" "''1''" "''''" "''ice cream''"]
    by simp
qed

section \<open>Mixed test: the roll of the question shape\<close>

text \<open>
  Claim C6 as stated fails: the thresholds of the source are \<open>0.33\<close> and \<open>0.66\<close>, not
  \<open>1/3\<close> and \<open>2/3\<close>.  The draw \<open>85/256 = 0.33203125\<close> lies in the first third of
  [0, 1) and is given the second shape; none of the three intervals has length \<open>1/3\<close>.
\<close>

theorem roll_not_thirds:
  "random01 (85 * 2 ^ 45) = 85 / 256 \<and> (85 / 256 :: rat) < 1 / 3 \<and>
   rollQuestionType (85 / 256) = MCMeaningToWord \<and>
   rollQuestionType_spec (85 / 256) = MCWordToMeaning \<and>
   threshold033 \<noteq> 1 / 3 \<and> threshold066 - threshold033 \<noteq> 1 / 3 \<and> 1 - threshold066 \<noteq> 1 / 3"
  by (simp add: random01_def rollQuestionType_def rollQuestionType_spec_def threshold033_def threshold066_def)

text \<open>
  Claim C6, amended.  Every draw lies in [0, 1).  A draw below \<open>0.33\<close> gives a
  word-to-meaning multiple-choice question, a draw from \<open>0.33\<close> up to but not including
  \<open>0.66\<close> a meaning-to-word multiple-choice question, and a draw of \<open>0.66\<close> or more a
  free-text question: the three intervals have the lengths \<open>0.33\<close>, \<open>0.33\<close> and \<open>0.34\<close>
  (up to the rounding of the two literals to doubles, less than \<open>10^-16\<close>).
\<close>

theorem roll_intervals:
  "0 \<le> random01 k \<and> random01 k < 1 \<and>
   (rollQuestionType rand = MCWordToMeaning \<longleftrightarrow> rand < threshold033) \<and>
   (rollQuestionType rand = MCMeaningToWord \<longleftrightarrow> threshold033 \<le> rand \<and> rand < threshold066) \<and>
   (rollQuestionType rand = Response \<longleftrightarrow> threshold066 \<le> rand) \<and>
   \<bar>threshold033 - 33 / 100\<bar> < 1 / 10 ^ 16 \<and>
   \<bar>(threshold066 - threshold033) - 33 / 100\<bar> < 1 / 10 ^ 16 \<and>
   \<bar>(1 - threshold066) - 34 / 100\<bar> < 1 / 10 ^ 16"
proof -
  have lt: "threshold033 < threshold066"
    by (simp add: threshold033_def threshold066_def)
  have 1: "rollQuestionType rand = MCWordToMeaning \<longleftrightarrow> rand < threshold033"
    by (simp add: rollQuestionType_def)
  have 2: "rollQuestionType rand = MCMeaningToWord \<longleftrightarrow> threshold033 \<le> rand \<and> rand < threshold066"
    by (auto simp: rollQuestionType_def)
  have 3: "rollQuestionType rand = Response \<longleftrightarrow> threshold066 \<le> rand"
    using lt by (auto simp: rollQuestionType_def)
  have 4: "\<bar>threshold033 - 33 / 100\<bar> < 1 / 10 ^ 16"
    by (simp add: threshold033_def)
  have 5: "\<bar>(threshold066 - threshold033) - 33 / 100\<bar> < 1 / 10 ^ 16"
    by (simp add: threshold033_def threshold066_def)
  have 6: "\<bar>(1 - threshold066) - 34 / 100\<bar> < 1 / 10 ^ 16"
    by (simp add: threshold066_def)
  from 1 2 3 4 5 6 random01_range [of k] show ?thesis by blast
qed

section \<open>Distractor sampling\<close>

text \<open>
  Claim C4 as stated fails: the placeholders are not numbered \<open>k = 1, 2, \<dots>\<close>.  The
  source pushes \<open>Definition ${distractors.length + 1}\<close>, so a placeholder carries its
  position in the result.  With one value left in the pool the result ends with
  \<open>Definition 2\<close> and \<open>Definition 3\<close>, where numbering from 1 gives \<open>Definition 1\<close> and
  \<open>Definition 2\<close>.
\<close>

theorem placeholders_not_numbered_from_one:
  "sampleDistractors ''Definition'' [] (meaning card1) (map meaning (cards section2))
     = [''to take food'', ''Definition 2'', ''Definition 3''] \<and>
   sampleDistractors_spec ''Definition'' [] (meaning card1) (map meaning (cards section2))
     = [''to take food'', ''Definition 1'', ''Definition 2'']"
  by code_simp

text \<open>
  Claim C4, amended.  The sampler keeps the pool values different from the correct
  answer, takes the first three of a rearrangement of them (all of them when there are
  fewer) and appends the placeholders \<open>{prefix} {k}\<close> for \<open>k = m + 1, \<dots>, 3\<close>, where \<open>m\<close> is
  the number of values taken.  The result has exactly 3 elements; the values taken come
  from the pool, each at most as often as it occurs there, and none of them is the
  correct answer.
\<close>

theorem sampleDistractors_shape:
  "(let taken = take 3 (shuffle seed (filter (\<lambda>m. m \<noteq> correct) pool))
    in sampleDistractors prefix seed correct pool
         = taken @ map (\<lambda>k. prefix @ '' '' @ showNat k) [Suc (length taken) ..< 4] \<and>
       length (sampleDistractors prefix seed correct pool) = 3 \<and>
       length taken = min 3 (length (filter (\<lambda>m. m \<noteq> correct) pool)) \<and>
       correct \<notin> set taken \<and>
       set taken \<subseteq> set pool \<and>
       mset taken \<subseteq># mset pool)"
proof -
  define taken where "taken = take 3 (shuffle seed (filter (\<lambda>m. m \<noteq> correct) pool))"
  have len: "length taken = min 3 (length (filter (\<lambda>m. m \<noteq> correct) pool))"
    by (simp add: taken_def length_shuffle min.commute)
  have eq: "sampleDistractors prefix seed correct pool
         = taken @ map (\<lambda>k. prefix @ '' '' @ showNat k) [Suc (length taken) ..< 4]"
    unfolding sampleDistractors_def taken_def [symmetric]
    by (rule padDistractors_eq) (simp add: len)
  have l3: "length (sampleDistractors prefix seed correct pool) = 3"
    unfolding eq using len by simp
  have sub: "set taken \<subseteq> set (filter (\<lambda>m. m \<noteq> correct) pool)"
    unfolding taken_def using set_take_subset [of 3] set_shuffle by metis
  have "mset taken \<subseteq># mset (shuffle seed (filter (\<lambda>m. m \<noteq> correct) pool))"
    unfolding taken_def by (rule mset_take_subset)
  also have "\<dots> = filter_mset (\<lambda>m. m \<noteq> correct) (mset pool)"
    by (simp add: mset_shuffle)
  also have "\<dots> \<subseteq># mset pool"
    by (rule multiset_filter_subset)
  finally have ms: "mset taken \<subseteq># mset pool" .
  from sub have "correct \<notin> set taken" and "set taken \<subseteq> set pool" by auto
  with eq l3 len ms show ?thesis
    unfolding taken_def [symmetric] Let_def by blast
qed

section \<open>The options of a multiple-choice question\<close>

text \<open>
  Claim C3 as stated fails.  For a section whose only card has the meaning
  \<open>Definition 1\<close> the quiz question lists the correct answer twice, once as a
  placeholder.  For a section in which three cards share the meaning \<open>of great size\<close>
  the question of the fourth card has three equal incorrect alternatives.
\<close>

theorem options_invariant_fails:
  "quizQuestions definitionSection plainDraws [] = [definitionQuestion] \<and>
   length (qq_options definitionQuestion) = 4 \<and>
   count_list (qq_options definitionQuestion) (meaning (qq_card definitionQuestion)) = 2 \<and>
   synonymQuestion \<in> set (quizQuestions synonymSection plainDraws []) \<and>
   remove1 (meaning (qq_card synonymQuestion)) (qq_options synonymQuestion)
     = [''of great size'', ''of great size'', ''of great size'']"
proof -
  have "quizQuestions synonymSection plainDraws [] \<noteq> []"
    using quiz_synonymSection by auto
  then have "hd (quizQuestions synonymSection plainDraws [])
               \<in> set (quizQuestions synonymSection plainDraws [])"
    by (rule hd_in_set)
  then have "synonymQuestion \<in> set (quizQuestions synonymSection plainDraws [])"
    using quiz_synonymSection by simp
  then show ?thesis
    by (simp add: quiz_definitionSection definitionQuestion_def synonymQuestion_def)
qed

text \<open>
  Claim C3, amended.  Every generated multiple-choice question (quiz mode and both
  multiple-choice shapes of the mixed test) has exactly 4 options, among them the correct
  answer.  The correct answer occurs exactly once when it is not one of the placeholder
  strings of its prefix.  All four options are pairwise distinct when the pool (the
  meanings of the section, or its words for the meaning-to-word shape) has no repeated
  value and contains none of the placeholder strings.
\<close>

theorem options_invariant:
  "(q \<in> set (quizQuestions section draws seed) \<longrightarrow>
      length (qq_options q) = 4 \<and>
      meaning (qq_card q) \<in> set (qq_options q) \<and>
      (meaning (qq_card q) \<notin> set (placeholders ''Definition'') \<longrightarrow>
         count_list (qq_options q) (meaning (qq_card q)) = 1) \<and>
      (distinct (map meaning (cards section)) \<and>
       set (map meaning (cards section)) \<inter> set (placeholders ''Definition'') = {} \<longrightarrow>
         distinct (qq_options q))) \<and>
   (t \<in> set (testQuestions section tdraws tseed) \<and> q_type t = MCWordToMeaning \<longrightarrow>
      (\<exists>options. q_options t = Some options \<and>
           q_correctAnswer t = meaning (q_card t) \<and>
           length options = 4 \<and>
           q_correctAnswer t \<in> set options \<and>
           (q_correctAnswer t \<notin> set (placeholders ''Definition'') \<longrightarrow>
              count_list options (q_correctAnswer t) = 1) \<and>
           (distinct (map meaning (cards section)) \<and>
            set (map meaning (cards section)) \<inter> set (placeholders ''Definition'') = {} \<longrightarrow>
              distinct options))) \<and>
   (t \<in> set (testQuestions section tdraws tseed) \<and> q_type t = MCMeaningToWord \<longrightarrow>
      (\<exists>options. q_options t = Some options \<and>
           q_correctAnswer t = vocab (q_card t) \<and>
           length options = 4 \<and>
           q_correctAnswer t \<in> set options \<and>
           (q_correctAnswer t \<notin> set (placeholders ''Word'') \<longrightarrow>
              count_list options (q_correctAnswer t) = 1) \<and>
           (distinct (map vocab (cards section)) \<and>
            set (map vocab (cards section)) \<inter> set (placeholders ''Word'') = {} \<longrightarrow>
              distinct options)))"
  using quiz_options [of q "section" draws seed]
        test_options_wordToMeaning [of t "section" tdraws tseed]
        test_options_meaningToWord [of t "section" tdraws tseed]
  by blast

theorem options_invariant_witness:
  "section2Question \<in> set (quizQuestions section2 plainDraws []) \<and>
   distinct (map meaning (cards section2)) \<and>
   set (map meaning (cards section2)) \<inter> set (placeholders ''Definition'') = {} \<and>
   length (qq_options section2Question) = 4 \<and>
   count_list (qq_options section2Question) (meaning (qq_card section2Question)) = 1 \<and>
   distinct (qq_options section2Question) \<and>
   wordToMeaningQuestion \<in> set (testQuestions section2 mixedDraws []) \<and>
   q_type wordToMeaningQuestion = MCWordToMeaning \<and>
   (\<exists>options. q_options wordToMeaningQuestion = Some options \<and> length options = 4 \<and>
      count_list options (q_correctAnswer wordToMeaningQuestion) = 1 \<and> distinct options) \<and>
   meaningToWordQuestion \<in> set (testQuestions section2 mixedDraws []) \<and>
   q_type meaningToWordQuestion = MCMeaningToWord \<and>
   distinct (map vocab (cards section2)) \<and>
   set (map vocab (cards section2)) \<inter> set (placeholders ''Word'') = {} \<and>
   (\<exists>options. q_options meaningToWordQuestion = Some options \<and> length options = 4 \<and>
      count_list options (q_correctAnswer meaningToWordQuestion) = 1 \<and> distinct options)"
proof -
  have "quizQuestions section2 plainDraws [] \<noteq> []"
    using quiz_section2 by auto
  then have "hd (quizQuestions section2 plainDraws []) \<in> set (quizQuestions section2 plainDraws [])"
    by (rule hd_in_set)
  then have m: "section2Question \<in> set (quizQuestions section2 plainDraws [])"
    using quiz_section2 by simp
  have dm: "distinct (map meaning (cards section2)) \<and>
            set (map meaning (cards section2)) \<inter> set (placeholders ''Definition'') = {}"
    by (simp add: section2_def card1_def card2_def placeholders_eq)
  have dv: "distinct (map vocab (cards section2)) \<and>
            set (map vocab (cards section2)) \<inter> set (placeholders ''Word'') = {}"
    by (simp add: section2_def card1_def card2_def placeholders_eq)
  have cm: "meaning (qq_card section2Question) \<notin> set (placeholders ''Definition'')"
    by (simp add: section2Question_def card1_def placeholders_eq)
  have tw: "q_type wordToMeaningQuestion = MCWordToMeaning \<and>
            q_correctAnswer wordToMeaningQuestion \<notin> set (placeholders ''Definition'')"
    by (simp add: wordToMeaningQuestion_def placeholders_eq)
  have tm: "q_type meaningToWordQuestion = MCMeaningToWord \<and>
            q_correctAnswer meaningToWordQuestion \<notin> set (placeholders ''Word'')"
    by (simp add: meaningToWordQuestion_def placeholders_eq)
  show ?thesis
    using options_invariant [of section2Question section2 plainDraws "[]"
                                wordToMeaningQuestion mixedDraws "[]"]
          options_invariant [of section2Question section2 plainDraws "[]"
                                meaningToWordQuestion mixedDraws "[]"]
          m dm dv cm tw tm test_section2_member
    by auto
qed

end
